theory Spec2Isabelle
  imports Main "HOL-Library.Word" "HOL-Library.Multiset"
begin

section \<open>Strings of the source language\<close>

text \<open>
  A JavaScript string is a sequence of UTF-16 code units and \<^verbatim>\<open>length\<close> counts code
  units, so user-supplied text (questions, options, identifiers, e-mail addresses) is a
  list of 16-bit words. The fixed messages the code returns are kept as HOL strings: the
  code only ever returns or compares them.
\<close>

type_synonym jsstring = "16 word list"

definition js :: "string \<Rightarrow> jsstring" where
  "js s = map (\<lambda>c. of_nat (of_char c)) s"

text \<open>
  \<^verbatim>\<open>String.prototype.trim\<close> strips the ECMAScript WhiteSpace and LineTerminator code
  points from both ends; all of them lie in the basic plane, so each is one code unit.
\<close>

definition isWhiteSpace :: "16 word \<Rightarrow> bool" where
  "isWhiteSpace c =
     (c \<in> set [0x09, 0x0A, 0x0B, 0x0C, 0x0D, 0x20, 0xA0, 0x1680,
                0x2028, 0x2029, 0x202F, 0x205F, 0x3000, 0xFEFF]
      \<or> (0x2000 \<le> c \<and> c \<le> 0x200A))"

definition trim :: "jsstring \<Rightarrow> jsstring" where
  "trim s = rev (dropWhile isWhiteSpace (rev (dropWhile isWhiteSpace s)))"

text \<open>
  A value decoded from a request body. The vote handlers test
  \<^verbatim>\<open>typeof optionIndex !== 'number'\<close>; the numbers considered are the integers
  (fractional values and NaN are outside this development).
\<close>

datatype jsvalue = JSNumber int | JSOther

section \<open>Rows, session and store\<close>

text \<open>
  The columns of the two tables that the handlers read or write
  (\<^verbatim>\<open>polls\<close>: id, user_id, question, options, created_at;
  \<^verbatim>\<open>votes\<close>: id, poll_id, user_id, option_index, created_at).
  A vote's \<^verbatim>\<open>user_id\<close> is nullable.
\<close>

record poll =
  p_id :: jsstring
  p_user_id :: jsstring
  p_question :: jsstring
  p_options :: "jsstring list"
  p_created_at :: nat

record vote =
  v_id :: jsstring
  v_poll_id :: jsstring
  v_user_id :: "jsstring option"
  v_option_index :: int
  v_created_at :: nat

record user =
  u_id :: jsstring
  u_email :: "jsstring option"

text \<open>
  The state the handlers act on: the two tables, and the paths handed to
  \<^verbatim>\<open>revalidatePath\<close> so far (the cache is not part of the store).
\<close>

record world =
  polls :: "poll list"
  votes :: "vote list"
  revalidated :: "string list"

datatype store_call =
  PollsSelectList | PollsSelectById | PollsInsert | PollsUpdate | PollsDelete
  | VotesSelect | VotesInsert

text \<open>
  What one request sees of its collaborators: the answer of
  \<^verbatim>\<open>supabase.auth.getUser()\<close> (\<open>session_user\<close>, \<open>session_error\<close>), for each
  kind of store call the error the store answers with, if any (\<open>fault\<close>, the message of
  the error object), and the identifier and timestamp the store assigns to an inserted
  row (\<open>gen_id\<close>, \<open>now\<close>).
\<close>

record env =
  session_user :: "user option"
  session_error :: "string option"
  fault :: "store_call \<Rightarrow> string option"
  gen_id :: jsstring
  now :: nat

subsection \<open>The store client\<close>

text \<open>
  The handlers reach the two tables through the Supabase query builder. What is written
  down here is the contract they rely on, with the tables as README.md declares them: a
  query answers with a pair \<open>(data, error)\<close>; a call for which \<open>fault\<close> holds a message
  answers with that error and changes nothing; \<^verbatim>\<open>.single()\<close> answers with an error
  and no data unless exactly one row matches. The \<^verbatim>\<open>CHECK\<close> constraints of the schema
  hold of every row that passed the handlers' validation and are not repeated; a refusal
  of the store for any other reason is a fault.
\<close>

definition single :: "string option \<Rightarrow> 'a list \<Rightarrow> 'a option \<times> string option" where
  "single flt rows =
     (case flt of
        Some m \<Rightarrow> (None, Some m)
      | None \<Rightarrow>
          (case rows of
             [r] \<Rightarrow> (Some r, None)
           | _ \<Rightarrow> (None, Some ''JSON object requested, multiple (or no) rows returned'')))"

definition order_desc :: "poll list \<Rightarrow> poll list" where
  "order_desc ps = rev (sort_key p_created_at ps)"

definition select_polls ::
  "env \<Rightarrow> world \<Rightarrow> (poll \<Rightarrow> bool) \<Rightarrow> poll list option \<times> string option" where
  "select_polls e w keep =
     (case fault e PollsSelectList of
        Some m \<Rightarrow> (None, Some m)
      | None \<Rightarrow> (Some (order_desc (filter keep (polls w))), None))"

definition select_poll_by_id :: "env \<Rightarrow> world \<Rightarrow> jsstring \<Rightarrow> poll option \<times> string option" where
  "select_poll_by_id e w i =
     single (fault e PollsSelectById) (filter (\<lambda>p. p_id p = i) (polls w))"

definition select_vote ::
  "env \<Rightarrow> world \<Rightarrow> jsstring \<Rightarrow> jsstring \<Rightarrow> vote option \<times> string option" where
  "select_vote e w pollId userId =
     single (fault e VotesSelect)
       (filter (\<lambda>v. v_poll_id v = pollId \<and> v_user_id v = Some userId) (votes w))"

text \<open>
  Inserts: the primary key must be new, and the \<^verbatim>\<open>votes\<close> table carries
  \<^verbatim>\<open>UNIQUE(poll_id, user_id)\<close>, which never fires for a null \<^verbatim>\<open>user_id\<close>.
\<close>

definition insert_poll :: "env \<Rightarrow> world \<Rightarrow> poll \<Rightarrow> world \<times> string option" where
  "insert_poll e w row =
     (case fault e PollsInsert of
        Some m \<Rightarrow> (w, Some m)
      | None \<Rightarrow>
          if p_id row \<in> set (map p_id (polls w))
          then (w, Some ''duplicate key value violates unique constraint'')
          else (w\<lparr>polls := polls w @ [row]\<rparr>, None))"

definition insert_vote :: "env \<Rightarrow> world \<Rightarrow> vote \<Rightarrow> world \<times> string option" where
  "insert_vote e w row =
     (case fault e VotesInsert of
        Some m \<Rightarrow> (w, Some m)
      | None \<Rightarrow>
          if v_id row \<in> set (map v_id (votes w))
             \<or> (v_user_id row \<noteq> None
                 \<and> filter (\<lambda>v. v_poll_id v = v_poll_id row \<and> v_user_id v = v_user_id row)
                      (votes w) \<noteq> [])
          then (w, Some ''duplicate key value violates unique constraint'')
          else (w\<lparr>votes := votes w @ [row]\<rparr>, None))"

text \<open>
  A filtered update or delete touches the matching rows and is no error when none
  matches. Deleting a poll deletes the votes that reference it
  (\<^verbatim>\<open>ON DELETE CASCADE\<close>).
\<close>

definition update_polls ::
  "env \<Rightarrow> world \<Rightarrow> (poll \<Rightarrow> bool) \<Rightarrow> (poll \<Rightarrow> poll) \<Rightarrow> world \<times> string option" where
  "update_polls e w hit patch =
     (case fault e PollsUpdate of
        Some m \<Rightarrow> (w, Some m)
      | None \<Rightarrow> (w\<lparr>polls := map (\<lambda>p. if hit p then patch p else p) (polls w)\<rparr>, None))"

definition delete_polls :: "env \<Rightarrow> world \<Rightarrow> (poll \<Rightarrow> bool) \<Rightarrow> world \<times> string option" where
  "delete_polls e w hit =
     (case fault e PollsDelete of
        Some m \<Rightarrow> (w, Some m)
      | None \<Rightarrow>
          (w\<lparr>polls := filter (\<lambda>p. \<not> hit p) (polls w),
             votes := filter (\<lambda>v. v_poll_id v \<notin> set (map p_id (filter hit (polls w))))
                        (votes w)\<rparr>,
           None))"

text \<open>
  The constraints of the schema on the stored rows: primary keys are distinct (and, being
  UUIDs, not the empty string), and no two votes share a poll and a non-null voter.
\<close>

definition store_ok :: "world \<Rightarrow> bool" where
  "store_ok w =
     (distinct (map p_id (polls w))
      \<and> [] \<notin> set (map p_id (polls w))
      \<and> distinct (map v_id (votes w))
      \<and> distinct (map (\<lambda>v. (v_poll_id v, v_user_id v))
                    (filter (\<lambda>v. v_user_id v \<noteq> None) (votes w))))"

section \<open>The server actions\<close>

subsection \<open>Administrators\<close>

definition adminEmails :: "jsstring list" where
  "adminEmails = [js ''admin@alxpolly.com'', js ''root@alxpolly.com'']"

text \<open>\<^verbatim>\<open>adminEmails.includes(userData.user?.email || '')\<close>\<close>

definition isUserAdmin :: "env \<Rightarrow> bool" where
  "isUserAdmin e =
     ((case session_user e of
         None \<Rightarrow> []
       | Some u \<Rightarrow> (case u_email u of None \<Rightarrow> [] | Some m \<Rightarrow> m))
      \<in> set adminEmails)"

definition getAllPolls :: "env \<Rightarrow> world \<Rightarrow> poll list \<times> string option" where
  "getAllPolls e w =
     (if session_error e \<noteq> None \<or> session_user e = None
      then ([], Some ''Authentication required.'')
      else if \<not> isUserAdmin e then ([], Some ''Admin access required.'')
      else
        (case select_polls e w (\<lambda>p. True) of
           (data, Some m) \<Rightarrow> ([], Some ''Failed to fetch polls.'')
         | (data, None) \<Rightarrow> ((case data of None \<Rightarrow> [] | Some d \<Rightarrow> d), None)))"

subsection \<open>Validation of a submitted poll\<close>

text \<open>
  The loop over the options returns at the first option that is blank after trimming or
  longer than 200 code units.
\<close>

fun validateOptions :: "jsstring list \<Rightarrow> string option" where
  "validateOptions [] = None"
| "validateOptions (opt # rest) =
     (if opt = [] \<or> length (trim opt) = 0 then Some ''All options must have text.''
      else if length opt > 200 then Some ''Options must be less than 200 characters.''
      else validateOptions rest)"

text \<open>
  The validation block, which \<^verbatim>\<open>createPoll\<close>, \<^verbatim>\<open>updatePoll\<close> and the two
  routes repeat word for word: \<open>question\<close> is the result of
  \<^verbatim>\<open>formData.get("question")\<close> (null when the field is missing) and \<open>options\<close> the
  already filtered list. On success it gives back the (non-null) question.
\<close>

definition validatePoll :: "jsstring option \<Rightarrow> jsstring list \<Rightarrow> string + jsstring" where
  "validatePoll question options =
     (case question of
        None \<Rightarrow> Inl ''Question is required.''
      | Some q \<Rightarrow>
          if q = [] \<or> length (trim q) = 0 then Inl ''Question is required.''
          else if length q > 500 then Inl ''Question must be less than 500 characters.''
          else if length options < 2 then Inl ''Please provide at least two options.''
          else if length options > 10 then Inl ''Maximum 10 options allowed.''
          else (case validateOptions options of Some m \<Rightarrow> Inl m | None \<Rightarrow> Inr q))"

text \<open>\<^verbatim>\<open>formData.getAll("options").filter(Boolean)\<close>: the empty string is the only falsy string.\<close>

definition filterBoolean :: "jsstring list \<Rightarrow> jsstring list" where
  "filterBoolean rawOptions = filter (\<lambda>s. s \<noteq> []) rawOptions"

subsection \<open>createPoll, getUserPolls, getPollById\<close>

definition createPoll ::
  "env \<Rightarrow> world \<Rightarrow> jsstring option \<Rightarrow> jsstring list \<Rightarrow> world \<times> string option" where
  "createPoll e w question rawOptions =
     (let options = filterBoolean rawOptions in
      case validatePoll question options of
        Inl m \<Rightarrow> (w, Some m)
      | Inr q \<Rightarrow>
          if session_error e \<noteq> None then (w, Some ''Authentication failed.'')
          else
            (case session_user e of
               None \<Rightarrow> (w, Some ''You must be logged in to create a poll.'')
             | Some u \<Rightarrow>
                 (case insert_poll e w
                         \<lparr>p_id = gen_id e, p_user_id = u_id u, p_question = trim q,
                          p_options = map trim options, p_created_at = now e\<rparr> of
                    (w', Some m) \<Rightarrow> (w', Some ''Failed to create poll.'')
                  | (w', None) \<Rightarrow>
                      (w'\<lparr>revalidated := revalidated w' @ [''/polls'']\<rparr>, None))))"

text \<open>On a store error \<^verbatim>\<open>getUserPolls\<close> returns \<^verbatim>\<open>error.message\<close>.\<close>

definition getUserPolls :: "env \<Rightarrow> world \<Rightarrow> poll list \<times> string option" where
  "getUserPolls e w =
     (case session_user e of
        None \<Rightarrow> ([], Some ''Not authenticated'')
      | Some u \<Rightarrow>
          (case select_polls e w (\<lambda>p. p_user_id p = u_id u) of
             (data, Some m) \<Rightarrow> ([], Some m)
           | (data, None) \<Rightarrow> ((case data of None \<Rightarrow> [] | Some d \<Rightarrow> d), None)))"

text \<open>
  The result is \<open>(poll, error, canEdit)\<close>; \<open>canEdit\<close> is absent on the error path.
  \<^verbatim>\<open>user?.id === data.user_id\<close> is false without a user, since \<^verbatim>\<open>user_id\<close> is a string.
  The case of neither data nor error is not an answer of \<^verbatim>\<open>.single()\<close> (there the
  source would throw on \<^verbatim>\<open>data.user_id\<close>).
\<close>

definition getPollById ::
  "env \<Rightarrow> world \<Rightarrow> jsstring \<Rightarrow> poll option \<times> string option \<times> bool option" where
  "getPollById e w i =
     (case select_poll_by_id e w i of
        (data, Some m) \<Rightarrow> (None, Some ''Poll not found.'', None)
      | (None, None) \<Rightarrow> (None, None, None)
      | (Some p, None) \<Rightarrow>
          (Some p, None,
           Some (case session_user e of None \<Rightarrow> False | Some u \<Rightarrow> u_id u = p_user_id p)))"

subsection \<open>submitVote\<close>

definition submitVote :: "env \<Rightarrow> world \<Rightarrow> jsstring \<Rightarrow> jsvalue \<Rightarrow> world \<times> string option" where
  "submitVote e w pollId optionIndex =
     (case optionIndex of
        JSOther \<Rightarrow> (w, Some ''Invalid vote data.'')
      | JSNumber i \<Rightarrow>
          if pollId = [] \<or> i < 0 then (w, Some ''Invalid vote data.'')
          else
            (case select_poll_by_id e w pollId of
               (Some p, None) \<Rightarrow>
                 if i \<ge> int (length (p_options p)) then (w, Some ''Invalid option selected.'')
                 else if (case session_user e of
                            None \<Rightarrow> False
                          | Some u \<Rightarrow> fst (select_vote e w pollId (u_id u)) \<noteq> None)
                 then (w, Some ''You have already voted on this poll.'')
                 else
                   (case insert_vote e w
                           \<lparr>v_id = gen_id e, v_poll_id = pollId,
                            v_user_id = map_option u_id (session_user e),
                            v_option_index = i, v_created_at = now e\<rparr> of
                      (w', Some m) \<Rightarrow> (w', Some ''Failed to submit vote.'')
                    | (w', None) \<Rightarrow> (w', None))
             | _ \<Rightarrow> (w, Some ''Poll not found.'')))"

subsection \<open>deletePoll, updatePoll\<close>

definition deletePoll :: "env \<Rightarrow> world \<Rightarrow> jsstring \<Rightarrow> world \<times> string option" where
  "deletePoll e w i =
     (if session_error e \<noteq> None then (w, Some ''Authentication failed.'')
      else
        (case session_user e of
           None \<Rightarrow> (w, Some ''You must be logged in to delete a poll.'')
         | Some u \<Rightarrow>
             (case delete_polls e w (\<lambda>p. p_id p = i \<and> p_user_id p = u_id u) of
                (w', Some m) \<Rightarrow>
                  (w', Some ''Failed to delete poll. You can only delete your own polls.'')
              | (w', None) \<Rightarrow> (w'\<lparr>revalidated := revalidated w' @ [''/polls'']\<rparr>, None))))"

definition updatePoll ::
  "env \<Rightarrow> world \<Rightarrow> jsstring \<Rightarrow> jsstring option \<Rightarrow> jsstring list \<Rightarrow> world \<times> string option" where
  "updatePoll e w pollId question rawOptions =
     (let options = filterBoolean rawOptions in
      case validatePoll question options of
        Inl m \<Rightarrow> (w, Some m)
      | Inr q \<Rightarrow>
          if session_error e \<noteq> None then (w, Some ''Authentication failed.'')
          else
            (case session_user e of
               None \<Rightarrow> (w, Some ''You must be logged in to update a poll.'')
             | Some u \<Rightarrow>
                 (case select_poll_by_id e w pollId of
                    (Some existingPoll, None) \<Rightarrow>
                      if p_user_id existingPoll \<noteq> u_id u
                      then (w, Some ''You can only edit your own polls.'')
                      else
                        (case update_polls e w
                                (\<lambda>p. p_id p = pollId \<and> p_user_id p = u_id u)
                                (\<lambda>p. p\<lparr>p_question := trim q,
                                        p_options := map trim options\<rparr>) of
                           (w', Some m) \<Rightarrow> (w', Some ''Failed to update poll.'')
                         | (w', None) \<Rightarrow> (w', None))
                  | _ \<Rightarrow> (w, Some ''Poll not found.''))))"

section \<open>The HTTP routes\<close>

text \<open>
  Each route repeats the body of its server action and adds a status code to every
  answer (\<^verbatim>\<open>NextResponse.json\<close> answers 200 unless told otherwise). A route that
  changes the store results in \<open>(world, status, error)\<close>.
\<close>

definition GET_polls :: "env \<Rightarrow> world \<Rightarrow> nat \<times> poll list \<times> string option" where
  "GET_polls e w =
     (case session_user e of
        None \<Rightarrow> (401, [], Some ''Not authenticated'')
      | Some u \<Rightarrow>
          (case select_polls e w (\<lambda>p. p_user_id p = u_id u) of
             (data, Some m) \<Rightarrow> (500, [], Some m)
           | (data, None) \<Rightarrow> (200, (case data of None \<Rightarrow> [] | Some d \<Rightarrow> d), None)))"

definition POST_polls ::
  "env \<Rightarrow> world \<Rightarrow> jsstring option \<Rightarrow> jsstring list \<Rightarrow> world \<times> nat \<times> string option" where
  "POST_polls e w question rawOptions =
     (let options = filterBoolean rawOptions in
      case validatePoll question options of
        Inl m \<Rightarrow> (w, 400, Some m)
      | Inr q \<Rightarrow>
          (case (if session_error e \<noteq> None then None else session_user e) of
             None \<Rightarrow> (w, 401, Some ''You must be logged in to create a poll.'')
           | Some u \<Rightarrow>
               (case insert_poll e w
                       \<lparr>p_id = gen_id e, p_user_id = u_id u, p_question = trim q,
                        p_options = map trim options, p_created_at = now e\<rparr> of
                  (w', Some m) \<Rightarrow> (w', 500, Some ''Failed to create poll.'')
                | (w', None) \<Rightarrow>
                    (w'\<lparr>revalidated := revalidated w' @ [''/polls'']\<rparr>, 201, None))))"

definition GET_poll ::
  "env \<Rightarrow> world \<Rightarrow> jsstring \<Rightarrow> nat \<times> poll option \<times> string option \<times> bool option" where
  "GET_poll e w i =
     (case select_poll_by_id e w i of
        (data, Some m) \<Rightarrow> (404, None, Some ''Poll not found.'', None)
      | (None, None) \<Rightarrow> (200, None, None, None)
      | (Some p, None) \<Rightarrow>
          (200, Some p, None,
           Some (case session_user e of None \<Rightarrow> False | Some u \<Rightarrow> u_id u = p_user_id p)))"

definition DELETE_poll :: "env \<Rightarrow> world \<Rightarrow> jsstring \<Rightarrow> world \<times> nat \<times> string option" where
  "DELETE_poll e w i =
     (case (if session_error e \<noteq> None then None else session_user e) of
        None \<Rightarrow> (w, 401, Some ''You must be logged in to delete a poll.'')
      | Some u \<Rightarrow>
          (case delete_polls e w (\<lambda>p. p_id p = i \<and> p_user_id p = u_id u) of
             (w', Some m) \<Rightarrow>
               (w', 500, Some ''Failed to delete poll. You can only delete your own polls.'')
           | (w', None) \<Rightarrow> (w'\<lparr>revalidated := revalidated w' @ [''/polls'']\<rparr>, 200, None)))"

definition PUT_poll ::
  "env \<Rightarrow> world \<Rightarrow> jsstring \<Rightarrow> jsstring option \<Rightarrow> jsstring list
     \<Rightarrow> world \<times> nat \<times> string option" where
  "PUT_poll e w pollId question rawOptions =
     (let options = filterBoolean rawOptions in
      case validatePoll question options of
        Inl m \<Rightarrow> (w, 400, Some m)
      | Inr q \<Rightarrow>
          (case (if session_error e \<noteq> None then None else session_user e) of
             None \<Rightarrow> (w, 401, Some ''You must be logged in to update a poll.'')
           | Some u \<Rightarrow>
               (case select_poll_by_id e w pollId of
                  (Some existingPoll, None) \<Rightarrow>
                    if p_user_id existingPoll \<noteq> u_id u
                    then (w, 403, Some ''You can only edit your own polls.'')
                    else
                      (case update_polls e w
                              (\<lambda>p. p_id p = pollId \<and> p_user_id p = u_id u)
                              (\<lambda>p. p\<lparr>p_question := trim q,
                                      p_options := map trim options\<rparr>) of
                         (w', Some m) \<Rightarrow> (w', 500, Some ''Failed to update poll.'')
                       | (w', None) \<Rightarrow> (w', 200, None))
                | _ \<Rightarrow> (w, 404, Some ''Poll not found.''))))"

definition POST_vote ::
  "env \<Rightarrow> world \<Rightarrow> jsstring \<Rightarrow> jsvalue \<Rightarrow> world \<times> nat \<times> string option" where
  "POST_vote e w pollId optionIndex =
     (case optionIndex of
        JSOther \<Rightarrow> (w, 400, Some ''Invalid vote data.'')
      | JSNumber i \<Rightarrow>
          if pollId = [] \<or> i < 0 then (w, 400, Some ''Invalid vote data.'')
          else
            (case select_poll_by_id e w pollId of
               (Some p, None) \<Rightarrow>
                 if i \<ge> int (length (p_options p))
                 then (w, 400, Some ''Invalid option selected.'')
                 else if (case session_user e of
                            None \<Rightarrow> False
                          | Some u \<Rightarrow> fst (select_vote e w pollId (u_id u)) \<noteq> None)
                 then (w, 409, Some ''You have already voted on this poll.'')
                 else
                   (case insert_vote e w
                           \<lparr>v_id = gen_id e, v_poll_id = pollId,
                            v_user_id = map_option u_id (session_user e),
                            v_option_index = i, v_created_at = now e\<rparr> of
                      (w', Some m) \<Rightarrow> (w', 500, Some ''Failed to submit vote.'')
                    | (w', None) \<Rightarrow> (w', 200, None))
             | _ \<Rightarrow> (w, 404, Some ''Poll not found.'')))"

definition GET_admin_polls :: "env \<Rightarrow> world \<Rightarrow> nat \<times> poll list \<times> string option" where
  "GET_admin_polls e w =
     (if session_error e \<noteq> None \<or> session_user e = None
      then (401, [], Some ''Authentication required.'')
      else if \<not> isUserAdmin e then (403, [], Some ''Admin access required.'')
      else
        (case select_polls e w (\<lambda>p. True) of
           (data, Some m) \<Rightarrow> (500, [], Some ''Failed to fetch polls.'')
         | (data, None) \<Rightarrow> (200, (case data of None \<Rightarrow> [] | Some d \<Rightarrow> d), None)))"

section \<open>Sample data\<close>

definition alice :: user where
  "alice = \<lparr>u_id = js ''u-alice'', u_email = Some (js ''alice@example.com'')\<rparr>"

definition bob :: user where
  "bob = \<lparr>u_id = js ''u-bob'', u_email = Some (js ''bob@example.com'')\<rparr>"

definition root_user :: user where
  "root_user = \<lparr>u_id = js ''u-root'', u_email = Some (js ''root@alxpolly.com'')\<rparr>"

definition colour_poll :: poll where
  "colour_poll =
     \<lparr>p_id = js ''p1'', p_user_id = js ''u-alice'', p_question = js ''Favorite color?'',
      p_options = [js ''Red'', js ''Blue''], p_created_at = 10\<rparr>"

definition lunch_poll :: poll where
  "lunch_poll =
     \<lparr>p_id = js ''p2'', p_user_id = js ''u-bob'', p_question = js ''Lunch?'',
      p_options = [js ''Soup'', js ''Salad'', js ''Pie''], p_created_at = 20\<rparr>"

definition bob_vote :: vote where
  "bob_vote =
     \<lparr>v_id = js ''v1'', v_poll_id = js ''p1'', v_user_id = Some (js ''u-bob''),
      v_option_index = 1, v_created_at = 11\<rparr>"

definition anon_vote :: vote where
  "anon_vote =
     \<lparr>v_id = js ''v2'', v_poll_id = js ''p1'', v_user_id = None,
      v_option_index = 0, v_created_at = 12\<rparr>"

definition sample_world :: world where
  "sample_world =
     \<lparr>polls = [colour_poll, lunch_poll], votes = [bob_vote, anon_vote], revalidated = []\<rparr>"

text \<open>A request of the given caller against a store that answers every call.\<close>

definition request_of :: "user option \<Rightarrow> env" where
  "request_of caller =
     \<lparr>session_user = caller, session_error = None, fault = (\<lambda>c. None),
      gen_id = js ''fresh'', now = 30\<rparr>"

text \<open>The same, against a store whose list query fails with the given message.\<close>

definition request_list_failing :: "user option \<Rightarrow> string \<Rightarrow> env" where
  "request_list_failing caller msg =
     \<lparr>session_user = caller, session_error = None,
      fault = (\<lambda>c. if c = PollsSelectList then Some msg else None),
      gen_id = js ''fresh'', now = 30\<rparr>"

text \<open>
  A question of 501 code units whose trimmed form has four, and a submission of eleven
  \<^verbatim>\<open>options\<close> fields of which nine are empty.
\<close>

definition padded_question :: jsstring where
  "padded_question = js ''Tea?'' @ replicate 497 0x20"

definition eleven_fields :: "jsstring list" where
  "eleven_fields = [js ''Tea'', js ''Coffee''] @ replicate 9 []"

text \<open>The messages of the validation block; the routes send each of them with status 400.\<close>

definition validation_messages :: "string list" where
  "validation_messages =
     [''Question is required.'', ''Question must be less than 500 characters.'',
      ''Please provide at least two options.'', ''Maximum 10 options allowed.'',
      ''All options must have text.'', ''Options must be less than 200 characters.'']"

section \<open>Auxiliary facts\<close>

lemmas sample_defs = alice_def bob_def root_user_def colour_poll_def lunch_poll_def bob_vote_def
  anon_vote_def sample_world_def request_of_def request_list_failing_def js_def

subsection \<open>Rows selected by a key\<close>

lemma filter_key_unique:
  "distinct (map f xs) \<Longrightarrow> x \<in> set xs \<Longrightarrow> filter (\<lambda>y. f y = f x) xs = [x]"
proof (induction xs)
  case Nil
  then show ?case by simp
next
  case (Cons a xs)
  show ?case
  proof (cases "a = x")
    case True
    with Cons.prems have "f x \<notin> f ` set xs" by simp
    then have "filter (\<lambda>y. f y = f x) xs = []" by (induction xs) auto
    with True show ?thesis by simp
  next
    case False
    with Cons.prems have "x \<in> set xs" "f a \<noteq> f x" "distinct (map f xs)" by auto
    with Cons.IH show ?thesis by simp
  qed
qed

lemma filter_key_absent: "k \<notin> set (map f xs) \<Longrightarrow> filter (\<lambda>y. f y = k) xs = []"
  by (auto simp: filter_empty_conv)

lemma select_poll_present:
  assumes "distinct (map p_id (polls w))" "P \<in> set (polls w)" "fault e PollsSelectById = None"
  shows "select_poll_by_id e w (p_id P) = (Some P, None)"
  using filter_key_unique [OF assms(1,2)] assms(3) by (simp add: select_poll_by_id_def single_def)

lemma select_poll_absent_pair:
  assumes "i \<notin> set (map p_id (polls w))"
  shows "\<exists>m. select_poll_by_id e w i = (None, Some m)"
  using filter_key_absent [OF assms]
  by (simp add: select_poll_by_id_def single_def split: option.splits)

lemma store_ok_poll_id:
  assumes "store_ok w" "P \<in> set (polls w)"
  shows "p_id P \<noteq> []"
proof
  assume "p_id P = []"
  with assms(2) have "[] \<in> set (map p_id (polls w))" by force
  with assms(1) show False by (simp add: store_ok_def)
qed

lemma store_ok_select_poll:
  "store_ok w \<Longrightarrow> P \<in> set (polls w) \<Longrightarrow> fault e PollsSelectById = None \<Longrightarrow>
     select_poll_by_id e w (p_id P) = (Some P, None)"
  by (rule select_poll_present) (simp_all add: store_ok_def)

lemma store_ok_select_vote:
  assumes "store_ok w" "v \<in> set (votes w)" "v_poll_id v = pollId" "v_user_id v = Some userId"
    "fault e VotesSelect = None"
  shows "select_vote e w pollId userId = (Some v, None)"
proof -
  let ?vs = "filter (\<lambda>v. v_user_id v \<noteq> None) (votes w)"
  let ?key = "\<lambda>v. (v_poll_id v, v_user_id v)"
  from assms have "distinct (map ?key ?vs)" "v \<in> set ?vs" by (simp_all add: store_ok_def)
  then have "filter (\<lambda>y. ?key y = ?key v) ?vs = [v]" by (rule filter_key_unique)
  moreover have "filter (\<lambda>y. ?key y = ?key v) ?vs
                 = filter (\<lambda>v. v_poll_id v = pollId \<and> v_user_id v = Some userId) (votes w)"
    using assms(3,4) by (auto intro: filter_cong)
  ultimately have "filter (\<lambda>v. v_poll_id v = pollId \<and> v_user_id v = Some userId) (votes w) = [v]"
    by simp
  then show ?thesis using assms(5) by (simp add: select_vote_def single_def)
qed

lemma insert_vote_duplicate:
  assumes "v \<in> set (votes w)" "v_poll_id v = v_poll_id row" "v_user_id v = v_user_id row"
    "v_user_id row \<noteq> None"
  shows "\<exists>m. insert_vote e w row = (w, Some m)"
proof -
  from assms have "filter (\<lambda>v. v_poll_id v = v_poll_id row \<and> v_user_id v = v_user_id row)
                     (votes w) \<noteq> []"
    by (auto simp: filter_empty_conv)
  with assms(4) show ?thesis by (simp add: insert_vote_def split: option.splits)
qed

lemma delete_polls_no_match:
  assumes "fault e PollsDelete = None" "filter hit (polls w) = []"
  shows "delete_polls e w hit = (w, None)"
proof -
  from assms(2) have "filter (\<lambda>p. \<not> hit p) (polls w) = polls w"
    by (auto simp: filter_empty_conv filter_id_conv)
  with assms show ?thesis by (simp add: delete_polls_def)
qed

subsection \<open>Trimming and validation\<close>

lemma trim_Nil: "trim [] = []"
  by (simp add: trim_def)

lemma trim_padded: "\<not> isWhiteSpace x \<Longrightarrow> \<not> isWhiteSpace y \<Longrightarrow> trim (x # xs @ y # replicate n 0x20) = x # xs @ [y]"
proof -
  assume x: "\<not> isWhiteSpace x" and y: "\<not> isWhiteSpace y"
  have ws: "\<And>c. c \<in> set (replicate n (0x20 :: 16 word)) \<Longrightarrow> isWhiteSpace c"
    by (simp add: isWhiteSpace_def)
  have "rev (x # xs @ y # replicate n 0x20) = replicate n 0x20 @ (y # rev xs @ [x])"
    by simp
  moreover have "dropWhile isWhiteSpace (replicate n 0x20 @ (y # rev xs @ [x]))
                 = dropWhile isWhiteSpace (y # rev xs @ [x])"
    using ws by (rule dropWhile_append2)
  ultimately have "dropWhile isWhiteSpace (rev (x # xs @ y # replicate n 0x20))
                   = y # rev xs @ [x]"
    using y by simp
  with x show ?thesis by (simp add: trim_def)
qed

lemma trim_padded_question: "trim padded_question = js ''Tea?''"
  using trim_padded [of "0x54" "0x3F" "[0x65, 0x61]" 497]
  by (simp add: padded_question_def js_def isWhiteSpace_def)

lemma validateOptions_accepts:
  "list_all (\<lambda>s. trim s \<noteq> [] \<and> length s \<le> 200) opts \<Longrightarrow> validateOptions opts = None"
  by (induction opts) (auto simp: trim_Nil)

lemma validateOptions_rejects_long:
  "s \<in> set opts \<Longrightarrow> 200 < length s \<Longrightarrow>
     validateOptions opts = Some ''All options must have text.''
     \<or> validateOptions opts = Some ''Options must be less than 200 characters.''"
  by (induction opts) auto

lemma filterBoolean_id: "list_all (\<lambda>s. trim s \<noteq> [] \<and> length s \<le> 200) opts \<Longrightarrow> filterBoolean opts = opts"
  by (induction opts) (auto simp: filterBoolean_def trim_Nil)

lemma filterBoolean_idem: "filterBoolean (filter (\<lambda>s. s \<noteq> []) rawOptions) = filterBoolean rawOptions"
  by (simp add: filterBoolean_def)

lemma validatePoll_accepts:
  assumes "trim q \<noteq> []" "length q \<le> 500" "2 \<le> length opts" "length opts \<le> 10"
    "list_all (\<lambda>s. trim s \<noteq> [] \<and> length s \<le> 200) opts"
  shows "validatePoll (Some q) opts = Inr q"
proof -
  from assms(1) have "q \<noteq> []" by (auto simp: trim_Nil)
  with assms validateOptions_accepts [OF assms(5)] show ?thesis
    by (simp add: validatePoll_def)
qed

lemma validatePoll_messages: "validatePoll question opts = Inl m \<Longrightarrow> m \<in> set validation_messages"
proof -
  have o: "\<And>m. validateOptions opts = Some m \<Longrightarrow> m \<in> set validation_messages"
    by (induction opts) (auto simp: validation_messages_def split: if_splits)
  assume "validatePoll question opts = Inl m"
  then show ?thesis using o
    by (auto simp: validatePoll_def validation_messages_def split: option.splits if_splits)
qed

lemma validatePoll_rejects:
  assumes "(\<exists>q. question = Some q \<and> 500 < length q)
           \<or> length (filter (\<lambda>s. s \<noteq> []) rawOptions) < 2
           \<or> 10 < length (filter (\<lambda>s. s \<noteq> []) rawOptions)
           \<or> (\<exists>s \<in> set rawOptions. 200 < length s)"
  shows "\<exists>m. validatePoll question (filterBoolean rawOptions) = Inl m"
proof (cases "\<exists>s \<in> set rawOptions. 200 < length s")
  case True
  then obtain s where "s \<in> set rawOptions" "200 < length s" by blast
  then have "s \<in> set (filterBoolean rawOptions)" "200 < length s"
    by (auto simp: filterBoolean_def)
  from validateOptions_rejects_long [OF this] show ?thesis
    by (auto simp: validatePoll_def split: option.splits)
next
  case False
  with assms show ?thesis
    by (auto simp: validatePoll_def filterBoolean_def split: option.splits)
qed

lemma validatePoll_count_low:
  assumes "trim q \<noteq> []" "length q \<le> 500"
  shows "validatePoll (Some q) opts = Inl ''Please provide at least two options.''
         \<longleftrightarrow> length opts < 2"
proof -
  from assms(1) have "q \<noteq> []" by (auto simp: trim_Nil)
  moreover have "validateOptions opts \<noteq> Some ''Please provide at least two options.''"
    by (induction opts) auto
  ultimately show ?thesis using assms
    by (auto simp: validatePoll_def split: option.splits)
qed

lemma validatePoll_count_high:
  assumes "trim q \<noteq> []" "length q \<le> 500"
  shows "validatePoll (Some q) opts = Inl ''Maximum 10 options allowed.''
         \<longleftrightarrow> 10 < length opts"
proof -
  from assms(1) have "q \<noteq> []" by (auto simp: trim_Nil)
  moreover have "validateOptions opts \<noteq> Some ''Maximum 10 options allowed.''"
    by (induction opts) auto
  ultimately show ?thesis using assms
    by (auto simp: validatePoll_def split: option.splits)
qed

lemma createPoll_after_validation:
  assumes "validatePoll question (filterBoolean rawOptions) = Inr q"
  shows "snd (createPoll e w question rawOptions)
         \<in> {None, Some ''Authentication failed.'',
             Some ''You must be logged in to create a poll.'', Some ''Failed to create poll.''}"
proof (cases "session_user e")
  case None
  with assms show ?thesis by (simp add: createPoll_def)
next
  case (Some u)
  obtain w' r where "insert_poll e w
                       \<lparr>p_id = gen_id e, p_user_id = u_id u, p_question = trim q,
                        p_options = map trim (filterBoolean rawOptions),
                        p_created_at = now e\<rparr> = (w', r)"
    by (cases "insert_poll e w
                       \<lparr>p_id = gen_id e, p_user_id = u_id u, p_question = trim q,
                        p_options = map trim (filterBoolean rawOptions),
                        p_created_at = now e\<rparr>") blast
  with assms Some show ?thesis by (cases r) (simp_all add: createPoll_def)
qed

lemma updatePoll_after_validation:
  assumes "validatePoll question (filterBoolean rawOptions) = Inr q"
  shows "snd (updatePoll e w pollId question rawOptions)
         \<in> {None, Some ''Authentication failed.'',
             Some ''You must be logged in to update a poll.'', Some ''Poll not found.'',
             Some ''You can only edit your own polls.'', Some ''Failed to update poll.''}"
proof (cases "session_user e")
  case None
  with assms show ?thesis by (simp add: updatePoll_def)
next
  case (Some u)
  obtain d r where s: "select_poll_by_id e w pollId = (d, r)"
    by (cases "select_poll_by_id e w pollId") blast
  obtain w' r' where "update_polls e w (\<lambda>p. p_id p = pollId \<and> p_user_id p = u_id u)
                        (\<lambda>p. p\<lparr>p_question := trim q,
                                p_options := map trim (filterBoolean rawOptions)\<rparr>) = (w', r')"
    by (cases "update_polls e w (\<lambda>p. p_id p = pollId \<and> p_user_id p = u_id u)
                        (\<lambda>p. p\<lparr>p_question := trim q,
                                p_options := map trim (filterBoolean rawOptions)\<rparr>)") blast
  with assms Some s show ?thesis
    by (cases d; cases r; cases r') (simp_all add: updatePoll_def)
qed

lemma createPoll_count_messages:
  "snd (createPoll e w question rawOptions) = Some ''Please provide at least two options.''
     \<longleftrightarrow> validatePoll question (filterBoolean rawOptions)
           = Inl ''Please provide at least two options.''"
  "snd (createPoll e w question rawOptions) = Some ''Maximum 10 options allowed.''
     \<longleftrightarrow> validatePoll question (filterBoolean rawOptions) = Inl ''Maximum 10 options allowed.''"
proof -
  show "snd (createPoll e w question rawOptions) = Some ''Please provide at least two options.''
     \<longleftrightarrow> validatePoll question (filterBoolean rawOptions)
           = Inl ''Please provide at least two options.''"
  proof (cases "validatePoll question (filterBoolean rawOptions)")
    case (Inl m)
    then show ?thesis by (simp add: createPoll_def)
  next
    case (Inr q)
    from createPoll_after_validation [OF this, of e w] Inr show ?thesis by auto
  qed
  show "snd (createPoll e w question rawOptions) = Some ''Maximum 10 options allowed.''
     \<longleftrightarrow> validatePoll question (filterBoolean rawOptions) = Inl ''Maximum 10 options allowed.''"
  proof (cases "validatePoll question (filterBoolean rawOptions)")
    case (Inl m)
    then show ?thesis by (simp add: createPoll_def)
  next
    case (Inr q)
    from createPoll_after_validation [OF this, of e w] Inr show ?thesis by auto
  qed
qed

lemma updatePoll_count_messages:
  "snd (updatePoll e w pollId question rawOptions) = Some ''Please provide at least two options.''
     \<longleftrightarrow> validatePoll question (filterBoolean rawOptions)
           = Inl ''Please provide at least two options.''"
  "snd (updatePoll e w pollId question rawOptions) = Some ''Maximum 10 options allowed.''
     \<longleftrightarrow> validatePoll question (filterBoolean rawOptions) = Inl ''Maximum 10 options allowed.''"
proof -
  show "snd (updatePoll e w pollId question rawOptions)
          = Some ''Please provide at least two options.''
     \<longleftrightarrow> validatePoll question (filterBoolean rawOptions)
           = Inl ''Please provide at least two options.''"
  proof (cases "validatePoll question (filterBoolean rawOptions)")
    case (Inl m)
    then show ?thesis by (simp add: updatePoll_def)
  next
    case (Inr q)
    from updatePoll_after_validation [OF this, of e w pollId] Inr show ?thesis by auto
  qed
  show "snd (updatePoll e w pollId question rawOptions) = Some ''Maximum 10 options allowed.''
     \<longleftrightarrow> validatePoll question (filterBoolean rawOptions) = Inl ''Maximum 10 options allowed.''"
  proof (cases "validatePoll question (filterBoolean rawOptions)")
    case (Inl m)
    then show ?thesis by (simp add: updatePoll_def)
  next
    case (Inr q)
    from updatePoll_after_validation [OF this, of e w pollId] Inr show ?thesis by auto
  qed
qed

subsection \<open>Ordering, administrators, votes\<close>

lemma mset_order_desc: "mset (order_desc ps) = mset ps"
  by (simp add: order_desc_def)

lemma sorted_order_desc:
  "sorted_wrt (\<lambda>a b. p_created_at b \<le> p_created_at a) (order_desc ps)"
proof -
  have "sorted (map p_created_at (sort_key p_created_at ps))" by (rule sorted_sort_key)
  then have "sorted_wrt (\<lambda>a b. p_created_at a \<le> p_created_at b) (sort_key p_created_at ps)"
    by (simp add: sorted_map)
  then show ?thesis by (simp add: order_desc_def sorted_wrt_rev)
qed

lemma isUserAdmin_iff:
  assumes "session_user e = Some u"
  shows "isUserAdmin e \<longleftrightarrow> (\<exists>m. u_email u = Some m \<and> m \<in> set adminEmails)"
proof -
  have "[] \<notin> set adminEmails" by (simp add: adminEmails_def js_def)
  with assms show ?thesis by (auto simp: isUserAdmin_def split: option.splits)
qed

lemma submitVote_duplicate_fails:
  assumes "session_user e = Some u" "v \<in> set (votes w)" "v_poll_id v = pollId"
    "v_user_id v = Some (u_id u)"
  shows "\<exists>m. submitVote e w pollId x = (w, Some m)"
proof (cases x)
  case JSOther
  then show ?thesis by (simp add: submitVote_def)
next
  case (JSNumber i)
  obtain m where ins: "insert_vote e w
               \<lparr>v_id = gen_id e, v_poll_id = pollId, v_user_id = Some (u_id u),
                v_option_index = i, v_created_at = now e\<rparr> = (w, Some m)"
    using assms insert_vote_duplicate [of v w _ e] by fastforce
  show ?thesis
    using JSNumber assms(1) ins
    by (auto simp: submitVote_def split: prod.splits option.splits)
qed

lemma POST_vote_duplicate_fails:
  assumes "session_user e = Some u" "v \<in> set (votes w)" "v_poll_id v = pollId"
    "v_user_id v = Some (u_id u)"
  shows "\<exists>s m. POST_vote e w pollId x = (w, s, Some m)"
proof (cases x)
  case JSOther
  then show ?thesis by (simp add: POST_vote_def)
next
  case (JSNumber i)
  obtain m where ins: "insert_vote e w
               \<lparr>v_id = gen_id e, v_poll_id = pollId, v_user_id = Some (u_id u),
                v_option_index = i, v_created_at = now e\<rparr> = (w, Some m)"
    using assms insert_vote_duplicate [of v w _ e] by fastforce
  show ?thesis
    using JSNumber assms(1) ins
    by (auto simp: POST_vote_def split: prod.splits option.splits)
qed

lemma updatePoll_non_owner_forbidden:
  assumes "store_ok w" "P \<in> set (polls w)" "fault e PollsSelectById = None"
    "session_user e = Some u" "session_error e = None" "u_id u \<noteq> p_user_id P"
    "validatePoll question (filterBoolean rawOptions) = Inr q"
  shows "updatePoll e w (p_id P) question rawOptions
           = (w, Some ''You can only edit your own polls.'')
         \<and> PUT_poll e w (p_id P) question rawOptions
           = (w, 403, Some ''You can only edit your own polls.'')"
proof -
  from assms(1-3) have "select_poll_by_id e w (p_id P) = (Some P, None)"
    by (rule store_ok_select_poll)
  with assms(4-7) show ?thesis by (auto simp: updatePoll_def PUT_poll_def)
qed

section \<open>The claims\<close>

text \<open>
  In the statements below the status codes stand for the error kinds of the specification:
  400 InvalidInput, 401 Unauthenticated, 403 Forbidden, 404 NotFound, 409 Conflict,
  500 StoreFailure. The server actions carry no code; their error is the message alone.
\<close>

subsection \<open>C1: a caller who is not the owner\<close>

text \<open>
  Claim C1 says that \<^verbatim>\<open>deletePoll\<close> by an authenticated caller who is neither the owner
  nor an administrator fails with Forbidden and leaves the poll unchanged. Evaluated on
  the sample store, with bob deleting alice's poll: the poll is indeed left in place, but
  the server action returns a null error and the route answers 200. The delete is filtered
  by \<^verbatim>\<open>user_id\<close>, matches no row, and a delete that matches no row is no error.
\<close>

theorem deletePoll_non_owner_reports_success:
  "colour_poll \<in> set (polls sample_world) \<and> p_user_id colour_poll \<noteq> u_id bob
   \<and> \<not> isUserAdmin (request_of (Some bob))
   \<and> deletePoll (request_of (Some bob)) sample_world (p_id colour_poll)
      = (sample_world\<lparr>revalidated := [''/polls'']\<rparr>, None)
   \<and> DELETE_poll (request_of (Some bob)) sample_world (p_id colour_poll)
      = (sample_world\<lparr>revalidated := [''/polls'']\<rparr>, 200, None)"
  by (simp add: deletePoll_def DELETE_poll_def delete_polls_def isUserAdmin_def adminEmails_def
      sample_defs)

subsection \<open>C2: what a failing store call returns to the caller\<close>

text \<open>
  Claim C2 says that no operation returns the store error's own message. Evaluated with
  a list query that fails with a message naming a host and a port: \<^verbatim>\<open>getUserPolls\<close>
  and \<^verbatim>\<open>GET /polls\<close> hand that message to the caller.
\<close>

theorem getUserPolls_returns_store_message:
  "getUserPolls (request_list_failing (Some alice) ''connect ECONNREFUSED 10.0.0.5:5432'')
     sample_world
   = ([], Some ''connect ECONNREFUSED 10.0.0.5:5432'')
   \<and> GET_polls (request_list_failing (Some alice) ''connect ECONNREFUSED 10.0.0.5:5432'')
       sample_world
     = (500, [], Some ''connect ECONNREFUSED 10.0.0.5:5432'')"
  by (simp add: getUserPolls_def GET_polls_def select_polls_def request_list_failing_def)

text \<open>On the same failure \<^verbatim>\<open>getAllPolls\<close> answers with its fixed message.\<close>

lemma getAllPolls_hides_store_message:
  "getAllPolls
     (request_list_failing (Some root_user) ''connect ECONNREFUSED 10.0.0.5:5432'')
     sample_world
   = ([], Some ''Failed to fetch polls.'')"
  by (simp add: getAllPolls_def isUserAdmin_def adminEmails_def select_polls_def
      request_list_failing_def root_user_def js_def)

subsection \<open>C3: valid input is stored trimmed\<close>

text \<open>
  Claim C3 as written bounds the trimmed lengths. The question below has four code units
  after trimming and 501 before, and \<^verbatim>\<open>createPoll\<close> rejects it: the limits are tested
  on the text as submitted.
\<close>

theorem createPoll_trimmed_length_counterexample:
  "1 \<le> length (trim padded_question) \<and> length (trim padded_question) \<le> 500
   \<and> createPoll (request_of (Some alice)) sample_world (Some padded_question)
        [js ''Tea'', js ''Coffee'']
      = (sample_world, Some ''Question must be less than 500 characters.'')
   \<and> POST_polls (request_of (Some alice)) sample_world (Some padded_question)
        [js ''Tea'', js ''Coffee'']
      = (sample_world, 400, Some ''Question must be less than 500 characters.'')"
proof -
  have t: "trim padded_question = js ''Tea?''" by (rule trim_padded_question)
  have l: "length padded_question = 501" by (simp add: padded_question_def js_def)
  have n: "padded_question \<noteq> []" using l by auto
  have v: "validatePoll (Some padded_question) (filterBoolean [js ''Tea'', js ''Coffee''])
           = Inl ''Question must be less than 500 characters.''"
    using t l n by (simp add: validatePoll_def js_def)
  show ?thesis using v t by (simp add: createPoll_def POST_polls_def js_def)
qed

text \<open>
  Claim C3, amended: for every authenticated caller, every question that is not blank after
  trimming and has at most 500 code units as submitted, and every options list of 2 to 10
  entries, each not blank after trimming and of at most 200 code units as submitted,
  \<^verbatim>\<open>createPoll\<close> succeeds when the store accepts the insert, and the poll it appends
  has the caller as owner, the trimmed question and the trimmed options in their original
  order. The route answers 201 with the same effect.
\<close>

theorem createPoll_accepts_valid_input:
  assumes "session_user e = Some u" and "session_error e = None"
    and "fault e PollsInsert = None" and "gen_id e \<notin> set (map p_id (polls w))"
    and "trim q \<noteq> []" and "length q \<le> 500"
    and "2 \<le> length opts" and "length opts \<le> 10"
    and "list_all (\<lambda>s. trim s \<noteq> [] \<and> length s \<le> 200) opts"
  shows "createPoll e w (Some q) opts =
           (w\<lparr>polls := polls w @
                 [\<lparr>p_id = gen_id e, p_user_id = u_id u, p_question = trim q,
                   p_options = map trim opts, p_created_at = now e\<rparr>],
              revalidated := revalidated w @ [''/polls'']\<rparr>, None)
         \<and> POST_polls e w (Some q) opts =
           (w\<lparr>polls := polls w @
                 [\<lparr>p_id = gen_id e, p_user_id = u_id u, p_question = trim q,
                   p_options = map trim opts, p_created_at = now e\<rparr>],
              revalidated := revalidated w @ [''/polls'']\<rparr>, 201, None)"
proof -
  have v: "validatePoll (Some q) (filterBoolean opts) = Inr q"
    using validatePoll_accepts [OF assms(5-9)] filterBoolean_id [OF assms(9)] by simp
  show ?thesis
    using v assms(1-4) filterBoolean_id [OF assms(9)]
    by (simp add: createPoll_def POST_polls_def insert_poll_def)
qed

text \<open>The amended C3 at a concrete submission with padded texts.\<close>

theorem createPoll_accepts_valid_input_witness:
  "session_user (request_of (Some alice)) = Some alice
   \<and> session_error (request_of (Some alice)) = None
   \<and> fault (request_of (Some alice)) PollsInsert = None
   \<and> gen_id (request_of (Some alice)) \<notin> set (map p_id (polls sample_world))
   \<and> trim (js '' Tea or coffee?  '') \<noteq> [] \<and> length (js '' Tea or coffee?  '') \<le> 500
   \<and> list_all (\<lambda>s. trim s \<noteq> [] \<and> length s \<le> 200) [js ''Tea '', js '' Coffee'']
   \<and> createPoll (request_of (Some alice)) sample_world (Some (js '' Tea or coffee?  ''))
        [js ''Tea '', js '' Coffee'']
      = (sample_world
           \<lparr>polls := [colour_poll, lunch_poll,
                      \<lparr>p_id = js ''fresh'', p_user_id = js ''u-alice'',
                       p_question = js ''Tea or coffee?'',
                       p_options = [js ''Tea'', js ''Coffee''], p_created_at = 30\<rparr>],
            revalidated := [''/polls'']\<rparr>, None)"
proof -
  have h: "session_user (request_of (Some alice)) = Some alice"
    "session_error (request_of (Some alice)) = None"
    "fault (request_of (Some alice)) PollsInsert = None"
    "gen_id (request_of (Some alice)) \<notin> set (map p_id (polls sample_world))"
    "trim (js '' Tea or coffee?  '') \<noteq> []" "length (js '' Tea or coffee?  '') \<le> 500"
    "2 \<le> length [js ''Tea '', js '' Coffee'']" "length [js ''Tea '', js '' Coffee''] \<le> 10"
    "list_all (\<lambda>s. trim s \<noteq> [] \<and> length s \<le> 200) [js ''Tea '', js '' Coffee'']"
    by (simp_all add: sample_defs trim_def isWhiteSpace_def)
  from createPoll_accepts_valid_input [OF h] h show ?thesis
    by (simp add: sample_defs trim_def isWhiteSpace_def)
qed

subsection \<open>C4: invalid input is rejected and nothing is written\<close>

text \<open>
  Claim C4 as written counts the entries of the submitted options list. Eleven fields of
  which nine are empty are more than 10 entries, yet \<^verbatim>\<open>createPoll\<close> stores a poll and
  \<^verbatim>\<open>updatePoll\<close> by the owner rewrites one: empty fields are dropped before counting.
\<close>

theorem option_count_counterexample:
  "10 < length eleven_fields
   \<and> createPoll (request_of (Some alice)) sample_world (Some (js ''Drink?'')) eleven_fields
      = (sample_world
           \<lparr>polls := [colour_poll, lunch_poll,
                      \<lparr>p_id = js ''fresh'', p_user_id = js ''u-alice'',
                       p_question = js ''Drink?'',
                       p_options = [js ''Tea'', js ''Coffee''], p_created_at = 30\<rparr>],
            revalidated := [''/polls'']\<rparr>, None)
   \<and> updatePoll (request_of (Some alice)) sample_world (js ''p1'') (Some (js ''Drink?''))
        eleven_fields
      = (sample_world
           \<lparr>polls := [colour_poll\<lparr>p_question := js ''Drink?'',
                                    p_options := [js ''Tea'', js ''Coffee'']\<rparr>,
                      lunch_poll]\<rparr>, None)"
  by (simp add: eleven_fields_def createPoll_def updatePoll_def filterBoolean_def
      validatePoll_def insert_poll_def update_polls_def select_poll_by_id_def single_def
      trim_def isWhiteSpace_def sample_defs)

text \<open>
  Claim C4, amended: for every question longer than 500 code units, every options list
  with fewer than 2 or more than 10 non-empty entries, and every options list containing an
  option longer than 200 code units, \<^verbatim>\<open>createPoll\<close> and \<^verbatim>\<open>updatePoll\<close> fail with
  one of the validation messages (the routes with status 400) and the state after the call
  is the state before it, whoever the caller and whatever the store answers.
\<close>

theorem invalid_poll_input_rejected:
  assumes "(\<exists>q. question = Some q \<and> 500 < length q)
           \<or> length (filter (\<lambda>s. s \<noteq> []) rawOptions) < 2
           \<or> 10 < length (filter (\<lambda>s. s \<noteq> []) rawOptions)
           \<or> (\<exists>s \<in> set rawOptions. 200 < length s)"
  shows "\<exists>m \<in> set validation_messages.
           createPoll e w question rawOptions = (w, Some m)
           \<and> updatePoll e w pollId question rawOptions = (w, Some m)
           \<and> POST_polls e w question rawOptions = (w, 400, Some m)
           \<and> PUT_poll e w pollId question rawOptions = (w, 400, Some m)"
proof -
  from validatePoll_rejects [OF assms] obtain m
    where m: "validatePoll question (filterBoolean rawOptions) = Inl m" by blast
  from validatePoll_messages [OF m] have "m \<in> set validation_messages" .
  moreover from m have "createPoll e w question rawOptions = (w, Some m)"
    "updatePoll e w pollId question rawOptions = (w, Some m)"
    "POST_polls e w question rawOptions = (w, 400, Some m)"
    "PUT_poll e w pollId question rawOptions = (w, 400, Some m)"
    by (simp_all add: createPoll_def updatePoll_def POST_polls_def PUT_poll_def)
  ultimately show ?thesis by blast
qed

text \<open>The amended C4 at a question of 501 code units.\<close>

theorem invalid_poll_input_rejected_witness:
  "500 < length (replicate 501 (0x61 :: 16 word))
   \<and> createPoll (request_of (Some alice)) sample_world (Some (replicate 501 0x61))
        [js ''Tea'', js ''Coffee'']
      = (sample_world, Some ''Question must be less than 500 characters.'')
   \<and> PUT_poll (request_of (Some alice)) sample_world (js ''p1'') (Some (replicate 501 0x61))
        [js ''Tea'', js ''Coffee'']
      = (sample_world, 400, Some ''Question must be less than 500 characters.'')"
proof -
  have h: "(\<exists>q. Some (replicate 501 (0x61 :: 16 word)) = Some q \<and> 500 < length q)
           \<or> length (filter (\<lambda>s. s \<noteq> []) [js ''Tea'', js ''Coffee'']) < 2
           \<or> 10 < length (filter (\<lambda>s. s \<noteq> []) [js ''Tea'', js ''Coffee''])
           \<or> (\<exists>s \<in> set [js ''Tea'', js ''Coffee'']. 200 < length s)"
    by simp
  have t: "trim (replicate 501 (0x61 :: 16 word)) = replicate 501 0x61"
    by (simp add: trim_def isWhiteSpace_def dropWhile_replicate)
  have v: "validatePoll (Some (replicate 501 0x61)) (filterBoolean [js ''Tea'', js ''Coffee''])
           = Inl ''Question must be less than 500 characters.''"
    using t by (simp add: validatePoll_def)
  have c: "createPoll (request_of (Some alice)) sample_world (Some (replicate 501 0x61))
             [js ''Tea'', js ''Coffee'']
           = (sample_world, Some ''Question must be less than 500 characters.'')"
    using v by (simp add: createPoll_def)
  from invalid_poll_input_rejected
         [OF h, of "request_of (Some alice)" sample_world "js ''p1''"]
  obtain m where "createPoll (request_of (Some alice)) sample_world
                    (Some (replicate 501 0x61)) [js ''Tea'', js ''Coffee''] = (sample_world, Some m)"
    and "PUT_poll (request_of (Some alice)) sample_world (js ''p1'')
           (Some (replicate 501 0x61)) [js ''Tea'', js ''Coffee''] = (sample_world, 400, Some m)"
    by blast
  with c show ?thesis by simp
qed

subsection \<open>C5: option index out of range, unknown poll\<close>

text \<open>
  Claim C5 as written promises NotFound for every poll identifier that is not in the store.
  With a negative option index the handlers answer InvalidInput before they look the poll
  up.
\<close>

theorem submitVote_unknown_poll_counterexample:
  "js ''p9'' \<notin> set (map p_id (polls sample_world))
   \<and> submitVote (request_of None) sample_world (js ''p9'') (JSNumber (- 1))
      = (sample_world, Some ''Invalid vote data.'')
   \<and> POST_vote (request_of None) sample_world (js ''p9'') (JSNumber (- 1))
      = (sample_world, 400, Some ''Invalid vote data.'')"
  by (simp add: submitVote_def POST_vote_def sample_defs)

text \<open>
  Claim C5, amended: a negative option index fails with InvalidInput and nothing is
  written, for every poll identifier; for every poll of the store, an option index of at
  least the number of its options fails with InvalidInput and nothing is written (the poll
  lookup answering); and for every non-empty poll identifier that is not in the store and
  every option index of at least 0, the vote fails with NotFound.
\<close>

theorem submitVote_rejects_bad_index_and_unknown_poll:
  "(i < 0 \<longrightarrow>
      submitVote e w pollId (JSNumber i) = (w, Some ''Invalid vote data.'')
      \<and> POST_vote e w pollId (JSNumber i) = (w, 400, Some ''Invalid vote data.''))
   \<and> (store_ok w \<and> P \<in> set (polls w) \<and> fault e PollsSelectById = None
        \<and> int (length (p_options P)) \<le> i \<longrightarrow>
      submitVote e w (p_id P) (JSNumber i) = (w, Some ''Invalid option selected.'')
      \<and> POST_vote e w (p_id P) (JSNumber i) = (w, 400, Some ''Invalid option selected.''))
   \<and> (pollId \<notin> set (map p_id (polls w)) \<and> pollId \<noteq> [] \<and> 0 \<le> i \<longrightarrow>
      submitVote e w pollId (JSNumber i) = (w, Some ''Poll not found.'')
      \<and> POST_vote e w pollId (JSNumber i) = (w, 404, Some ''Poll not found.''))"
proof (intro conjI impI)
  assume "i < 0"
  then show "submitVote e w pollId (JSNumber i) = (w, Some ''Invalid vote data.'')"
    and "POST_vote e w pollId (JSNumber i) = (w, 400, Some ''Invalid vote data.'')"
    by (simp_all add: submitVote_def POST_vote_def)
next
  assume a: "store_ok w \<and> P \<in> set (polls w) \<and> fault e PollsSelectById = None
             \<and> int (length (p_options P)) \<le> i"
  then have s: "select_poll_by_id e w (p_id P) = (Some P, None)"
    by (simp add: store_ok_select_poll)
  from a have n: "p_id P \<noteq> []" using store_ok_poll_id by blast
  from a have i: "\<not> i < 0" "int (length (p_options P)) \<le> i" by auto
  show "submitVote e w (p_id P) (JSNumber i) = (w, Some ''Invalid option selected.'')"
    using s n i by (simp add: submitVote_def)
  show "POST_vote e w (p_id P) (JSNumber i) = (w, 400, Some ''Invalid option selected.'')"
    using s n i by (simp add: POST_vote_def)
next
  assume a: "pollId \<notin> set (map p_id (polls w)) \<and> pollId \<noteq> [] \<and> 0 \<le> i"
  then obtain m where s: "select_poll_by_id e w pollId = (None, Some m)"
    using select_poll_absent_pair by blast
  show "submitVote e w pollId (JSNumber i) = (w, Some ''Poll not found.'')"
    using s a by (simp add: submitVote_def)
  show "POST_vote e w pollId (JSNumber i) = (w, 404, Some ''Poll not found.'')"
    using s a by (simp add: POST_vote_def)
qed

text \<open>The amended C5 on the sample store: index -1, index 2 on a poll of two options, and an unknown poll.\<close>

theorem submitVote_rejects_bad_index_and_unknown_poll_witness:
  "(- 1 :: int) < 0
   \<and> submitVote (request_of None) sample_world (js ''p1'') (JSNumber (- 1))
      = (sample_world, Some ''Invalid vote data.'')
   \<and> store_ok sample_world \<and> colour_poll \<in> set (polls sample_world)
   \<and> fault (request_of None) PollsSelectById = None
   \<and> int (length (p_options colour_poll)) \<le> 2
   \<and> submitVote (request_of None) sample_world (js ''p1'') (JSNumber 2)
      = (sample_world, Some ''Invalid option selected.'')
   \<and> js ''p9'' \<notin> set (map p_id (polls sample_world)) \<and> js ''p9'' \<noteq> [] \<and> (0 :: int) \<le> 1
   \<and> POST_vote (request_of None) sample_world (js ''p9'') (JSNumber 1)
      = (sample_world, 404, Some ''Poll not found.'')"
proof -
  have h: "store_ok sample_world" "colour_poll \<in> set (polls sample_world)"
    "fault (request_of None) PollsSelectById = None"
    "int (length (p_options colour_poll)) \<le> 2"
    "js ''p9'' \<notin> set (map p_id (polls sample_world))" "js ''p9'' \<noteq> []"
    "p_id colour_poll = js ''p1''"
    by (simp_all add: store_ok_def sample_defs)
  show ?thesis
    using h
      submitVote_rejects_bad_index_and_unknown_poll
        [of "- 1" "request_of None" sample_world "js ''p1''" colour_poll]
      submitVote_rejects_bad_index_and_unknown_poll
        [of 2 "request_of None" sample_world "js ''p1''" colour_poll]
      submitVote_rejects_bad_index_and_unknown_poll
        [of 1 "request_of None" sample_world "js ''p9''" colour_poll]
    by simp
qed

subsection \<open>C6: one vote per authenticated caller, no limit for anonymous callers\<close>

text \<open>
  Claim C6 as written promises Conflict for every option index once the caller has voted.
  Bob has voted on the colour poll; his second vote with index 2, which the poll does not
  have, fails with InvalidInput: the index is checked before the earlier vote is looked up.
\<close>

theorem submitVote_duplicate_counterexample:
  "session_user (request_of (Some bob)) = Some bob
   \<and> colour_poll \<in> set (polls sample_world) \<and> bob_vote \<in> set (votes sample_world)
   \<and> v_poll_id bob_vote = p_id colour_poll \<and> v_user_id bob_vote = Some (u_id bob)
   \<and> submitVote (request_of (Some bob)) sample_world (p_id colour_poll) (JSNumber 2)
      = (sample_world, Some ''Invalid option selected.'')
   \<and> POST_vote (request_of (Some bob)) sample_world (p_id colour_poll) (JSNumber 2)
      = (sample_world, 400, Some ''Invalid option selected.'')"
  by (simp add: submitVote_def POST_vote_def select_poll_by_id_def single_def sample_defs)

text \<open>
  Claim C6, amended: if a vote of the authenticated caller exists for the poll, then every
  further vote of that caller on the poll fails and nothing is inserted, whatever the
  submitted index and whatever the store answers; with an index that is valid for the poll
  (and the two lookups answering) the failure is Conflict. An anonymous vote with a valid
  index succeeds when the store accepts the insert, and appends a vote without
  \<^verbatim>\<open>user_id\<close>, whichever votes the poll already has.
\<close>

theorem submitVote_duplicate_and_anonymous:
  "(session_user e = Some u \<and> P \<in> set (polls w) \<and> v \<in> set (votes w)
      \<and> v_poll_id v = p_id P \<and> v_user_id v = Some (u_id u) \<longrightarrow>
        (\<exists>m. submitVote e w (p_id P) x = (w, Some m))
        \<and> (\<exists>s m. POST_vote e w (p_id P) x = (w, s, Some m))
        \<and> (store_ok w \<and> fault e PollsSelectById = None \<and> fault e VotesSelect = None
             \<and> 0 \<le> i \<and> i < int (length (p_options P)) \<longrightarrow>
           submitVote e w (p_id P) (JSNumber i)
             = (w, Some ''You have already voted on this poll.'')
           \<and> POST_vote e w (p_id P) (JSNumber i)
             = (w, 409, Some ''You have already voted on this poll.'')))
   \<and> (session_user e = None \<and> store_ok w \<and> P \<in> set (polls w)
        \<and> 0 \<le> i \<and> i < int (length (p_options P))
        \<and> fault e PollsSelectById = None \<and> fault e VotesInsert = None
        \<and> gen_id e \<notin> set (map v_id (votes w)) \<longrightarrow>
      submitVote e w (p_id P) (JSNumber i)
        = (w\<lparr>votes := votes w @
               [\<lparr>v_id = gen_id e, v_poll_id = p_id P, v_user_id = None,
                 v_option_index = i, v_created_at = now e\<rparr>]\<rparr>, None)
      \<and> POST_vote e w (p_id P) (JSNumber i)
        = (w\<lparr>votes := votes w @
               [\<lparr>v_id = gen_id e, v_poll_id = p_id P, v_user_id = None,
                 v_option_index = i, v_created_at = now e\<rparr>]\<rparr>, 200, None))"
proof (intro conjI impI)
  assume a: "session_user e = Some u \<and> P \<in> set (polls w) \<and> v \<in> set (votes w)
      \<and> v_poll_id v = p_id P \<and> v_user_id v = Some (u_id u)"
  then show "\<exists>m. submitVote e w (p_id P) x = (w, Some m)"
    using submitVote_duplicate_fails by blast
  from a show "\<exists>s m. POST_vote e w (p_id P) x = (w, s, Some m)"
    using POST_vote_duplicate_fails by blast
  assume b: "store_ok w \<and> fault e PollsSelectById = None \<and> fault e VotesSelect = None
             \<and> 0 \<le> i \<and> i < int (length (p_options P))"
  from a b have sp: "select_poll_by_id e w (p_id P) = (Some P, None)"
    by (simp add: store_ok_select_poll)
  from a b have sv: "select_vote e w (p_id P) (u_id u) = (Some v, None)"
    by (simp add: store_ok_select_vote)
  from a b have n: "p_id P \<noteq> []" using store_ok_poll_id by blast
  from a b have i: "\<not> i < 0" "\<not> int (length (p_options P)) \<le> i" by auto
  from a have su: "session_user e = Some u" by simp
  show "submitVote e w (p_id P) (JSNumber i) = (w, Some ''You have already voted on this poll.'')"
    using sp sv n i su by (simp add: submitVote_def)
  show "POST_vote e w (p_id P) (JSNumber i)
          = (w, 409, Some ''You have already voted on this poll.'')"
    using sp sv n i su by (simp add: POST_vote_def)
next
  assume a: "session_user e = None \<and> store_ok w \<and> P \<in> set (polls w)
        \<and> 0 \<le> i \<and> i < int (length (p_options P))
        \<and> fault e PollsSelectById = None \<and> fault e VotesInsert = None
        \<and> gen_id e \<notin> set (map v_id (votes w))"
  then have sp: "select_poll_by_id e w (p_id P) = (Some P, None)"
    by (simp add: store_ok_select_poll)
  from a have n: "p_id P \<noteq> []" using store_ok_poll_id by blast
  from a have i: "\<not> i < 0" "\<not> int (length (p_options P)) \<le> i" by auto
  from a have iv: "insert_vote e w
           \<lparr>v_id = gen_id e, v_poll_id = p_id P, v_user_id = None,
            v_option_index = i, v_created_at = now e\<rparr>
         = (w\<lparr>votes := votes w @
               [\<lparr>v_id = gen_id e, v_poll_id = p_id P, v_user_id = None,
                 v_option_index = i, v_created_at = now e\<rparr>]\<rparr>, None)"
    by (simp add: insert_vote_def)
  from a have su: "session_user e = None" by simp
  show "submitVote e w (p_id P) (JSNumber i)
        = (w\<lparr>votes := votes w @
               [\<lparr>v_id = gen_id e, v_poll_id = p_id P, v_user_id = None,
                 v_option_index = i, v_created_at = now e\<rparr>]\<rparr>, None)"
    using sp n i iv su by (simp add: submitVote_def)
  show "POST_vote e w (p_id P) (JSNumber i)
        = (w\<lparr>votes := votes w @
               [\<lparr>v_id = gen_id e, v_poll_id = p_id P, v_user_id = None,
                 v_option_index = i, v_created_at = now e\<rparr>]\<rparr>, 200, None)"
    using sp n i iv su by (simp add: POST_vote_def)
qed

text \<open>
  The amended C6 on the sample store: bob's second vote on the colour poll, and an
  anonymous vote on the same poll, which already has an anonymous vote.
\<close>

theorem submitVote_duplicate_and_anonymous_witness:
  "session_user (request_of (Some bob)) = Some bob
   \<and> colour_poll \<in> set (polls sample_world) \<and> bob_vote \<in> set (votes sample_world)
   \<and> v_poll_id bob_vote = p_id colour_poll \<and> v_user_id bob_vote = Some (u_id bob)
   \<and> store_ok sample_world
   \<and> fault (request_of (Some bob)) PollsSelectById = None
   \<and> fault (request_of (Some bob)) VotesSelect = None
   \<and> (0 :: int) \<le> 0 \<and> 0 < int (length (p_options colour_poll))
   \<and> submitVote (request_of (Some bob)) sample_world (p_id colour_poll) (JSNumber 0)
      = (sample_world, Some ''You have already voted on this poll.'')
   \<and> session_user (request_of None) = None
   \<and> fault (request_of None) VotesInsert = None
   \<and> gen_id (request_of None) \<notin> set (map v_id (votes sample_world))
   \<and> anon_vote \<in> set (votes sample_world) \<and> v_poll_id anon_vote = p_id colour_poll
   \<and> v_user_id anon_vote = None
   \<and> POST_vote (request_of None) sample_world (p_id colour_poll) (JSNumber 0)
      = (sample_world
           \<lparr>votes := [bob_vote, anon_vote,
                      \<lparr>v_id = js ''fresh'', v_poll_id = js ''p1'', v_user_id = None,
                       v_option_index = 0, v_created_at = 30\<rparr>]\<rparr>, 200, None)"
proof -
  have h: "session_user (request_of (Some bob)) = Some bob"
    "colour_poll \<in> set (polls sample_world)" "bob_vote \<in> set (votes sample_world)"
    "v_poll_id bob_vote = p_id colour_poll" "v_user_id bob_vote = Some (u_id bob)"
    "store_ok sample_world"
    "fault (request_of (Some bob)) PollsSelectById = None"
    "fault (request_of (Some bob)) VotesSelect = None"
    "0 < int (length (p_options colour_poll))"
    "session_user (request_of None) = None"
    "fault (request_of None) PollsSelectById = None"
    "fault (request_of None) VotesInsert = None"
    "gen_id (request_of None) \<notin> set (map v_id (votes sample_world))"
    "anon_vote \<in> set (votes sample_world)" "v_poll_id anon_vote = p_id colour_poll"
    "v_user_id anon_vote = None"
    by (simp_all add: store_ok_def sample_defs)
  have g: "gen_id (request_of None) = js ''fresh''" "now (request_of None) = 30"
    "p_id colour_poll = js ''p1''" "votes sample_world = [bob_vote, anon_vote]"
    by (simp_all add: request_of_def colour_poll_def sample_world_def)
  show ?thesis
    using h g
      submitVote_duplicate_and_anonymous
        [of "request_of (Some bob)" bob colour_poll sample_world bob_vote "JSNumber 0" 0]
      submitVote_duplicate_and_anonymous
        [of "request_of None" bob colour_poll sample_world bob_vote "JSNumber 0" 0]
    by simp
qed

subsection \<open>C7: listing all polls\<close>

text \<open>
  Claim C7: for every authenticated caller whose e-mail address is not in the list of
  administrators (or who has none), \<^verbatim>\<open>getAllPolls\<close> fails with Forbidden and returns
  no polls; for every caller whose address is in the list it succeeds, when the store
  answers, and returns every poll of the store, whoever owns it, ordered by
  \<^verbatim>\<open>created_at\<close> descending.
\<close>

theorem getAllPolls_admin_only:
  assumes "session_user e = Some u" and "session_error e = None"
  shows "((\<forall>m. u_email u = Some m \<longrightarrow> m \<notin> set adminEmails) \<longrightarrow>
            getAllPolls e w = ([], Some ''Admin access required.'')
            \<and> GET_admin_polls e w = (403, [], Some ''Admin access required.''))
         \<and> ((\<exists>m. u_email u = Some m \<and> m \<in> set adminEmails)
              \<and> fault e PollsSelectList = None \<longrightarrow>
            (\<exists>ps. getAllPolls e w = (ps, None) \<and> GET_admin_polls e w = (200, ps, None)
                  \<and> mset ps = mset (polls w)
                  \<and> sorted_wrt (\<lambda>a b. p_created_at b \<le> p_created_at a) ps))"
proof (intro conjI impI)
  assume "\<forall>m. u_email u = Some m \<longrightarrow> m \<notin> set adminEmails"
  then have n: "\<not> isUserAdmin e" using isUserAdmin_iff [OF assms(1)] by blast
  show "getAllPolls e w = ([], Some ''Admin access required.'')"
    using n assms by (simp add: getAllPolls_def)
  show "GET_admin_polls e w = (403, [], Some ''Admin access required.'')"
    using n assms by (simp add: GET_admin_polls_def)
next
  assume a: "(\<exists>m. u_email u = Some m \<and> m \<in> set adminEmails) \<and> fault e PollsSelectList = None"
  then have y: "isUserAdmin e" using isUserAdmin_iff [OF assms(1)] by blast
  from a have s: "select_polls e w (\<lambda>p. True) = (Some (order_desc (polls w)), None)"
    by (simp add: select_polls_def)
  have "getAllPolls e w = (order_desc (polls w), None)"
    using y s assms by (simp add: getAllPolls_def)
  moreover have "GET_admin_polls e w = (200, order_desc (polls w), None)"
    using y s assms by (simp add: GET_admin_polls_def)
  ultimately show "\<exists>ps. getAllPolls e w = (ps, None) \<and> GET_admin_polls e w = (200, ps, None)
                  \<and> mset ps = mset (polls w)
                  \<and> sorted_wrt (\<lambda>a b. p_created_at b \<le> p_created_at a) ps"
    using mset_order_desc sorted_order_desc by blast
qed

text \<open>C7 on the sample store, for bob and for an administrator.\<close>

theorem getAllPolls_admin_only_witness:
  "session_user (request_of (Some bob)) = Some bob
   \<and> session_error (request_of (Some bob)) = None
   \<and> u_email bob = Some (js ''bob@example.com'') \<and> js ''bob@example.com'' \<notin> set adminEmails
   \<and> getAllPolls (request_of (Some bob)) sample_world = ([], Some ''Admin access required.'')
   \<and> session_user (request_of (Some root_user)) = Some root_user
   \<and> session_error (request_of (Some root_user)) = None
   \<and> (\<exists>m. u_email root_user = Some m \<and> m \<in> set adminEmails)
   \<and> fault (request_of (Some root_user)) PollsSelectList = None
   \<and> getAllPolls (request_of (Some root_user)) sample_world = ([lunch_poll, colour_poll], None)
   \<and> GET_admin_polls (request_of (Some root_user)) sample_world
      = (200, [lunch_poll, colour_poll], None)"
proof -
  have h: "session_user (request_of (Some bob)) = Some bob"
    "session_error (request_of (Some bob)) = None"
    "\<forall>m. u_email bob = Some m \<longrightarrow> m \<notin> set adminEmails"
    "session_user (request_of (Some root_user)) = Some root_user"
    "session_error (request_of (Some root_user)) = None"
    "\<exists>m. u_email root_user = Some m \<and> m \<in> set adminEmails"
    "fault (request_of (Some root_user)) PollsSelectList = None"
    by (simp_all add: adminEmails_def sample_defs)
  have r: "getAllPolls (request_of (Some root_user)) sample_world
             = ([lunch_poll, colour_poll], None)"
    "GET_admin_polls (request_of (Some root_user)) sample_world
             = (200, [lunch_poll, colour_poll], None)"
    by (simp_all add: getAllPolls_def GET_admin_polls_def isUserAdmin_def adminEmails_def
        select_polls_def order_desc_def sample_defs)
  have b: "u_email bob = Some (js ''bob@example.com'')"
    "js ''bob@example.com'' \<notin> set adminEmails"
    by (simp_all add: adminEmails_def sample_defs)
  show ?thesis
    using h b r
      getAllPolls_admin_only [OF h(1,2), of sample_world]
      getAllPolls_admin_only [OF h(4,5), of sample_world]
    by simp
qed

subsection \<open>C8: reading one poll\<close>

text \<open>
  Claim C8: for every poll of the store, \<^verbatim>\<open>getPollById\<close> succeeds for every caller,
  anonymous ones included, and returns the poll with a \<open>canEdit\<close> flag that is true if and
  only if there is a session user whose identifier is the poll's \<^verbatim>\<open>user_id\<close>; for
  every identifier that is not in the store it fails with NotFound.
\<close>

theorem getPollById_public_read:
  "(store_ok w \<and> P \<in> set (polls w) \<and> fault e PollsSelectById = None \<longrightarrow>
      (\<exists>canEdit.
         getPollById e w (p_id P) = (Some P, None, Some canEdit)
         \<and> GET_poll e w (p_id P) = (200, Some P, None, Some canEdit)
         \<and> (canEdit \<longleftrightarrow> (\<exists>u. session_user e = Some u \<and> u_id u = p_user_id P))))
   \<and> (i \<notin> set (map p_id (polls w)) \<longrightarrow>
        getPollById e w i = (None, Some ''Poll not found.'', None)
        \<and> GET_poll e w i = (404, None, Some ''Poll not found.'', None))"
proof (intro conjI impI)
  assume "store_ok w \<and> P \<in> set (polls w) \<and> fault e PollsSelectById = None"
  then have s: "select_poll_by_id e w (p_id P) = (Some P, None)"
    by (simp add: store_ok_select_poll)
  let ?c = "case session_user e of None \<Rightarrow> False | Some u \<Rightarrow> u_id u = p_user_id P"
  have "getPollById e w (p_id P) = (Some P, None, Some ?c)"
    using s by (simp add: getPollById_def)
  moreover have "GET_poll e w (p_id P) = (200, Some P, None, Some ?c)"
    using s by (simp add: GET_poll_def)
  moreover have "?c \<longleftrightarrow> (\<exists>u. session_user e = Some u \<and> u_id u = p_user_id P)"
    by (simp split: option.splits)
  ultimately show "\<exists>canEdit.
         getPollById e w (p_id P) = (Some P, None, Some canEdit)
         \<and> GET_poll e w (p_id P) = (200, Some P, None, Some canEdit)
         \<and> (canEdit \<longleftrightarrow> (\<exists>u. session_user e = Some u \<and> u_id u = p_user_id P))"
    by blast
next
  assume "i \<notin> set (map p_id (polls w))"
  then obtain m where s: "select_poll_by_id e w i = (None, Some m)"
    using select_poll_absent_pair by blast
  show "getPollById e w i = (None, Some ''Poll not found.'', None)"
    using s by (simp add: getPollById_def)
  show "GET_poll e w i = (404, None, Some ''Poll not found.'', None)"
    using s by (simp add: GET_poll_def)
qed

text \<open>C8 on the sample store, for an anonymous caller, the owner, another user and an unknown poll.\<close>

theorem getPollById_public_read_witness:
  "store_ok sample_world \<and> colour_poll \<in> set (polls sample_world)
   \<and> fault (request_of None) PollsSelectById = None
   \<and> getPollById (request_of None) sample_world (p_id colour_poll)
      = (Some colour_poll, None, Some False)
   \<and> getPollById (request_of (Some alice)) sample_world (p_id colour_poll)
      = (Some colour_poll, None, Some True)
   \<and> GET_poll (request_of (Some bob)) sample_world (p_id colour_poll)
      = (200, Some colour_poll, None, Some False)
   \<and> js ''p9'' \<notin> set (map p_id (polls sample_world))
   \<and> GET_poll (request_of (Some alice)) sample_world (js ''p9'')
      = (404, None, Some ''Poll not found.'', None)"
proof -
  have h: "store_ok sample_world" "colour_poll \<in> set (polls sample_world)"
    "\<And>c. fault (request_of c) PollsSelectById = None"
    "js ''p9'' \<notin> set (map p_id (polls sample_world))"
    by (simp_all add: store_ok_def sample_defs)
  have c: "session_user (request_of None) = None"
    "session_user (request_of (Some alice)) = Some alice"
    "session_user (request_of (Some bob)) = Some bob"
    "u_id alice = p_user_id colour_poll" "u_id bob \<noteq> p_user_id colour_poll"
    by (simp_all add: sample_defs)
  show ?thesis
    using h c
      getPollById_public_read [of sample_world colour_poll "request_of None" "js ''p9''"]
      getPollById_public_read [of sample_world colour_poll "request_of (Some alice)" "js ''p9''"]
      getPollById_public_read [of sample_world colour_poll "request_of (Some bob)" "js ''p9''"]
    by auto
qed

subsection \<open>C9: empty option fields\<close>

text \<open>
  Claim C9: \<^verbatim>\<open>createPoll\<close> and \<^verbatim>\<open>updatePoll\<close> (and their routes) drop every
  empty-string entry of the submitted options before validation and storage: their result
  is the result for the list without its empty entries; for a question that passes its own
  checks, the two messages about the number of options are returned exactly when the number
  of non-empty entries is below 2, respectively above 10; and the submission
  \<^verbatim>\<open>["A", "", "B"]\<close> is accepted and stored as the two options A and B.
\<close>

theorem empty_options_dropped:
  "createPoll e w question rawOptions
     = createPoll e w question (filter (\<lambda>s. s \<noteq> []) rawOptions)
   \<and> updatePoll e w pollId question rawOptions
     = updatePoll e w pollId question (filter (\<lambda>s. s \<noteq> []) rawOptions)
   \<and> POST_polls e w question rawOptions
     = POST_polls e w question (filter (\<lambda>s. s \<noteq> []) rawOptions)
   \<and> PUT_poll e w pollId question rawOptions
     = PUT_poll e w pollId question (filter (\<lambda>s. s \<noteq> []) rawOptions)
   \<and> (trim q \<noteq> [] \<and> length q \<le> 500 \<longrightarrow>
        (snd (createPoll e w (Some q) rawOptions) = Some ''Please provide at least two options.''
           \<longleftrightarrow> length (filter (\<lambda>s. s \<noteq> []) rawOptions) < 2)
        \<and> (snd (createPoll e w (Some q) rawOptions) = Some ''Maximum 10 options allowed.''
           \<longleftrightarrow> 10 < length (filter (\<lambda>s. s \<noteq> []) rawOptions))
        \<and> (snd (updatePoll e w pollId (Some q) rawOptions)
              = Some ''Please provide at least two options.''
           \<longleftrightarrow> length (filter (\<lambda>s. s \<noteq> []) rawOptions) < 2)
        \<and> (snd (updatePoll e w pollId (Some q) rawOptions) = Some ''Maximum 10 options allowed.''
           \<longleftrightarrow> 10 < length (filter (\<lambda>s. s \<noteq> []) rawOptions)))
   \<and> createPoll (request_of (Some alice)) sample_world (Some (js ''Pick one''))
        [js ''A'', js '''', js ''B'']
      = (sample_world
           \<lparr>polls := [colour_poll, lunch_poll,
                      \<lparr>p_id = js ''fresh'', p_user_id = js ''u-alice'',
                       p_question = js ''Pick one'',
                       p_options = [js ''A'', js ''B''], p_created_at = 30\<rparr>],
            revalidated := [''/polls'']\<rparr>, None)"
proof (intro conjI impI)
  show "createPoll e w question rawOptions
          = createPoll e w question (filter (\<lambda>s. s \<noteq> []) rawOptions)"
    by (simp add: createPoll_def filterBoolean_idem)
  show "updatePoll e w pollId question rawOptions
          = updatePoll e w pollId question (filter (\<lambda>s. s \<noteq> []) rawOptions)"
    by (simp add: updatePoll_def filterBoolean_idem)
  show "POST_polls e w question rawOptions
          = POST_polls e w question (filter (\<lambda>s. s \<noteq> []) rawOptions)"
    by (simp add: POST_polls_def filterBoolean_idem)
  show "PUT_poll e w pollId question rawOptions
          = PUT_poll e w pollId question (filter (\<lambda>s. s \<noteq> []) rawOptions)"
    by (simp add: PUT_poll_def filterBoolean_idem)
  show "createPoll (request_of (Some alice)) sample_world (Some (js ''Pick one''))
        [js ''A'', js '''', js ''B'']
      = (sample_world
           \<lparr>polls := [colour_poll, lunch_poll,
                      \<lparr>p_id = js ''fresh'', p_user_id = js ''u-alice'',
                       p_question = js ''Pick one'',
                       p_options = [js ''A'', js ''B''], p_created_at = 30\<rparr>],
            revalidated := [''/polls'']\<rparr>, None)"
    by (simp add: createPoll_def filterBoolean_def validatePoll_def insert_poll_def
        trim_def isWhiteSpace_def sample_defs)
next
  assume q: "trim q \<noteq> [] \<and> length q \<le> 500"
  have f: "filterBoolean rawOptions = filter (\<lambda>s. s \<noteq> []) rawOptions"
    by (simp add: filterBoolean_def)
  show "snd (createPoll e w (Some q) rawOptions) = Some ''Please provide at least two options.''
          \<longleftrightarrow> length (filter (\<lambda>s. s \<noteq> []) rawOptions) < 2"
    using q by (simp add: createPoll_count_messages validatePoll_count_low f)
  show "snd (createPoll e w (Some q) rawOptions) = Some ''Maximum 10 options allowed.''
          \<longleftrightarrow> 10 < length (filter (\<lambda>s. s \<noteq> []) rawOptions)"
    using q by (simp add: createPoll_count_messages validatePoll_count_high f)
  show "snd (updatePoll e w pollId (Some q) rawOptions)
              = Some ''Please provide at least two options.''
          \<longleftrightarrow> length (filter (\<lambda>s. s \<noteq> []) rawOptions) < 2"
    using q by (simp add: updatePoll_count_messages validatePoll_count_low f)
  show "snd (updatePoll e w pollId (Some q) rawOptions) = Some ''Maximum 10 options allowed.''
          \<longleftrightarrow> 10 < length (filter (\<lambda>s. s \<noteq> []) rawOptions)"
    using q by (simp add: updatePoll_count_messages validatePoll_count_high f)
qed

text \<open>C9 at a submission with one non-empty option out of three.\<close>

theorem empty_options_dropped_witness:
  "trim (js ''Pick one'') \<noteq> [] \<and> length (js ''Pick one'') \<le> 500
   \<and> length (filter (\<lambda>s. s \<noteq> []) [js ''A'', js '''', js '''']) < 2
   \<and> snd (createPoll (request_of (Some alice)) sample_world (Some (js ''Pick one''))
            [js ''A'', js '''', js ''''])
      = Some ''Please provide at least two options.''
   \<and> createPoll (request_of (Some alice)) sample_world (Some (js ''Pick one''))
        [js ''A'', js '''', js ''B'']
      = createPoll (request_of (Some alice)) sample_world (Some (js ''Pick one''))
        [js ''A'', js ''B'']"
proof -
  have h: "trim (js ''Pick one'') \<noteq> [] \<and> length (js ''Pick one'') \<le> 500"
    by (simp add: js_def trim_def isWhiteSpace_def)
  have l: "length (filter (\<lambda>s. s \<noteq> []) [js ''A'', js '''', js '''']) < 2"
    by (simp add: js_def)
  have f: "filter (\<lambda>s. s \<noteq> []) [js ''A'', js '''', js ''B''] = [js ''A'', js ''B'']"
    by (simp add: js_def)
  note drop = empty_options_dropped
    [of "request_of (Some alice)" sample_world "Some (js ''Pick one'')"
        "[js ''A'', js '''', js ''B'']" "js ''p1''" "js ''Pick one''"]
  note count = empty_options_dropped
    [of "request_of (Some alice)" sample_world "Some (js ''Pick one'')"
        "[js ''A'', js '''', js '''']" "js ''p1''" "js ''Pick one''"]
  have d: "createPoll (request_of (Some alice)) sample_world (Some (js ''Pick one''))
          [js ''A'', js '''', js ''B'']
        = createPoll (request_of (Some alice)) sample_world (Some (js ''Pick one''))
          [js ''A'', js ''B'']"
    using drop [THEN conjunct1] unfolding f .
  have c: "snd (createPoll (request_of (Some alice)) sample_world (Some (js ''Pick one''))
            [js ''A'', js '''', js ''''])
      = Some ''Please provide at least two options.''"
    using count [THEN conjunct2, THEN conjunct2, THEN conjunct2, THEN conjunct2,
                 THEN conjunct1, THEN mp, OF h, THEN conjunct1] l
    by (rule iffD2)
  from h l c d show ?thesis by (intro conjI) (erule conjunct1 conjunct2 | assumption)+
qed

subsection \<open>C10: deleting a poll that does not exist\<close>

text \<open>
  Claim C10: for every authenticated caller and every poll identifier that matches no poll
  of the store, \<^verbatim>\<open>deletePoll\<close> returns a null error (the route answers 200) when the
  store answers, and both tables are as before; only the path \<^verbatim>\<open>/polls\<close> is
  revalidated.
\<close>

theorem deletePoll_unknown_id_succeeds:
  assumes "session_user e = Some u" and "session_error e = None"
    and "fault e PollsDelete = None" and "i \<notin> set (map p_id (polls w))"
  shows "deletePoll e w i = (w\<lparr>revalidated := revalidated w @ [''/polls'']\<rparr>, None)
         \<and> DELETE_poll e w i = (w\<lparr>revalidated := revalidated w @ [''/polls'']\<rparr>, 200, None)"
proof -
  from assms(4) have "filter (\<lambda>p. p_id p = i \<and> p_user_id p = u_id u) (polls w) = []"
    by (auto simp: filter_empty_conv)
  with assms(3) have "delete_polls e w (\<lambda>p. p_id p = i \<and> p_user_id p = u_id u) = (w, None)"
    by (rule delete_polls_no_match)
  with assms(1,2) show ?thesis by (simp add: deletePoll_def DELETE_poll_def)
qed

text \<open>C10 on the sample store, for bob and an unknown identifier.\<close>

theorem deletePoll_unknown_id_succeeds_witness:
  "session_user (request_of (Some bob)) = Some bob
   \<and> session_error (request_of (Some bob)) = None
   \<and> fault (request_of (Some bob)) PollsDelete = None
   \<and> js ''p9'' \<notin> set (map p_id (polls sample_world))
   \<and> deletePoll (request_of (Some bob)) sample_world (js ''p9'')
      = (sample_world\<lparr>revalidated := [''/polls'']\<rparr>, None)
   \<and> polls (fst (deletePoll (request_of (Some bob)) sample_world (js ''p9'')))
      = polls sample_world
   \<and> votes (fst (deletePoll (request_of (Some bob)) sample_world (js ''p9'')))
      = votes sample_world
   \<and> DELETE_poll (request_of (Some bob)) sample_world (js ''p9'')
      = (sample_world\<lparr>revalidated := [''/polls'']\<rparr>, 200, None)"
proof -
  have h: "session_user (request_of (Some bob)) = Some bob"
    "session_error (request_of (Some bob)) = None"
    "fault (request_of (Some bob)) PollsDelete = None"
    "js ''p9'' \<notin> set (map p_id (polls sample_world))"
    by (simp_all add: sample_defs)
  have r: "revalidated sample_world = []" by (simp add: sample_world_def)
  from deletePoll_unknown_id_succeeds [OF h] h r show ?thesis by simp
qed

end
